theory Spec2Isabelle
  imports Main
begin

section \<open>Data model (models.py)\<close>

text \<open>
  Python values that the code tests for truth are optional strings: a nullable
  \<^verbatim>\<open>EmailField\<close> is \<^verbatim>\<open>None\<close>, the empty string or an address; the keyword
  arguments of \<^verbatim>\<open>send_email\<close> default to \<^verbatim>\<open>None\<close>. \<open>truthy\<close> is Python's truth
  value of such a value: \<^verbatim>\<open>None\<close> and \<^verbatim>\<open>""\<close> are false.
\<close>

definition truthy :: "string option \<Rightarrow> bool" where
  "truthy s = (case s of None \<Rightarrow> False | Some v \<Rightarrow> v \<noteq> [])"

type_synonym time = nat

text \<open>The host application's \<^verbatim>\<open>Patient\<close>: its primary key and its organization.\<close>

record patient =
  pk :: nat
  organization :: nat

text \<open>
  \<^verbatim>\<open>class PatientEmail(RitikoModel)\<close>. \<open>row_id\<close> is the primary key of the row
  (\<^verbatim>\<open>None\<close> for an instance that was never saved); \<open>profile_organization\<close> is
  the \<^verbatim>\<open>organization\<close> column inherited from \<^verbatim>\<open>RitikoModel\<close>, the one
  \<^verbatim>\<open>get_or_create\<close> receives in \<^verbatim>\<open>defaults\<close>.
\<close>

record patient_email =
  row_id :: "nat option"
  profile_organization :: nat
  patient :: patient
  email :: "string option"
  secondary_email :: "string option"
  email_verified :: bool
  email_notifications_enabled :: bool
  preferred_email :: string
  email_bounced :: bool
  last_email_sent :: "time option"

text \<open>
  \<^verbatim>\<open>
  def get_preferred_email(self):
      if self.preferred_email == "secondary" and self.secondary_email:
          return self.secondary_email
      return self.email or self.secondary_email
  \<close>
  \<^verbatim>\<open>a or b\<close> is \<^verbatim>\<open>a\<close> when \<^verbatim>\<open>a\<close> is true and \<^verbatim>\<open>b\<close> otherwise.
\<close>

definition get_preferred_email :: "patient_email \<Rightarrow> string option" where
  "get_preferred_email self =
     (if preferred_email self = ''secondary'' \<and> truthy (secondary_email self)
      then secondary_email self
      else if truthy (email self) then email self else secondary_email self)"

section \<open>Collaborators and the mutable world\<close>

text \<open>An exception value: its class and \<^verbatim>\<open>str(e)\<close>. Every value is an instance of
  \<^verbatim>\<open>Exception\<close>, which is what \<^verbatim>\<open>except Exception\<close> catches.\<close>

datatype exn = Exn (exn_class: string) (exn_msg: string)

text \<open>
  Values stored in a template dictionary. \<open>V_self\<close> is the reference to the profile
  object whose method is running (\<^verbatim>\<open>context["email_profile"] = self\<close> stores the object,
  not a copy); the renderer reads its fields from the object it is handed.
\<close>

datatype pyval = V_none | V_str string | V_patient patient | V_self

type_synonym template_dict = "string \<Rightarrow> pyval option"

text \<open>The keyword arguments \<^verbatim>\<open>send_mail\<close> is called with (\<^verbatim>\<open>fail_silently\<close> is always
  \<^verbatim>\<open>False\<close>).\<close>

record mail =
  m_subject :: string
  m_message :: string
  m_from_email :: "string option"
  m_recipient_list :: "string list"
  m_html_message :: "string option"

text \<open>
  The external collaborators of the send path, none of them part of this repository:
  Django's \<^verbatim>\<open>render_to_string\<close> and \<^verbatim>\<open>send_mail\<close> either raise or return (the number of
  messages delivered, for the transport), \<^verbatim>\<open>strip_tags\<close> is a function on strings, and
  \<open>delay\<close> is the time that passes between the start of a call and its reading of
  \<^verbatim>\<open>timezone.now()\<close> (the clock never runs backwards).
\<close>

record env =
  render_to_string :: "string \<Rightarrow> template_dict \<Rightarrow> patient_email \<Rightarrow> exn + string"
  strip_tags :: "string \<Rightarrow> string"
  send_mail :: "mail \<Rightarrow> exn + nat"
  delay :: time

text \<open>
  What a call can change outside its own object: the table \<^verbatim>\<open>patient_email_profiles\<close>,
  the list of messages handed to the transport (one entry per invocation, accepted or
  not), the list of renderer invocations, the lines printed, and the clock.
  \<open>patients\<close> is the host's patient table, which this code only reads.
\<close>

record world =
  table :: "patient_email list"
  patients :: "patient list"
  outbox :: "mail list"
  rendered :: "(string \<times> template_dict) list"
  stdout :: "string list"
  clock :: time

text \<open>The state a method call works on: the object itself, the caller's dictionary
  (\<^verbatim>\<open>None\<close> when no \<^verbatim>\<open>context\<close> was passed) and the world.\<close>

record state =
  st_self :: patient_email
  st_ctx :: "template_dict option"
  st_world :: world

definition on_world :: "(world \<Rightarrow> world) \<Rightarrow> state \<Rightarrow> state" where
  "on_world f st = st\<lparr>st_world := f (st_world st)\<rparr>"

text \<open>Python's \<^verbatim>\<open>message or ""\<close> on an optional string.\<close>

definition or_empty :: "string option \<Rightarrow> string" where
  "or_empty s = (if truthy s then (case s of Some v \<Rightarrow> v | None \<Rightarrow> []) else [])"

text \<open>Decimal rendering of a primary key, as the f-string does.\<close>

fun str_nat :: "nat \<Rightarrow> string" where
  "str_nat n = (if n < 10 then [''0123456789'' ! n]
                else str_nat (n div 10) @ [''0123456789'' ! (n mod 10)])"

declare str_nat.simps [simp del]

text \<open>\<^verbatim>\<open>f"Failed to send email to patient {self.patient.pk}: {e}"\<close>\<close>

definition failure_line :: "patient_email \<Rightarrow> exn \<Rightarrow> string" where
  "failure_line self e =
     ''Failed to send email to patient '' @ str_nat (pk (patient self)) @ '': '' @ exn_msg e"

section \<open>Storage\<close>

text \<open>
  \<^verbatim>\<open>self.save(update_fields=["last_email_sent"])\<close>: an \<^verbatim>\<open>UPDATE\<close> of that one column on
  the rows whose primary key is the object's. Django raises when the object has no
  primary key and when the statement matches no row.
\<close>

definition save_last_email_sent :: "patient_email \<Rightarrow> patient_email list \<Rightarrow> exn + patient_email list" where
  "save_last_email_sent self tbl =
     (case row_id self of
        None \<Rightarrow> Inl (Exn ''ValueError'' ''Cannot force an update in save() with no primary key.'')
      | Some i \<Rightarrow>
          if filter (\<lambda>r. row_id r = Some i) tbl = []
          then Inl (Exn ''DatabaseError'' ''Save with update_fields did not affect any rows.'')
          else Inr (map (\<lambda>r. if row_id r = Some i
                              then r\<lparr>last_email_sent := last_email_sent self\<rparr> else r) tbl))"

text \<open>The next value of the auto-incremented primary key.\<close>

definition fresh_id :: "patient_email list \<Rightarrow> nat" where
  "fresh_id tbl = Suc (fold max (map (\<lambda>r. case row_id r of None \<Rightarrow> 0 | Some i \<Rightarrow> i) tbl) 0)"

text \<open>A new row with the field defaults declared in \<^verbatim>\<open>PatientEmail\<close>.\<close>

definition new_profile :: "nat \<Rightarrow> patient \<Rightarrow> nat \<Rightarrow> patient_email" where
  "new_profile i p org =
     \<lparr>row_id = Some i, profile_organization = org, patient = p,
      email = None, secondary_email = None, email_verified = False,
      email_notifications_enabled = True, preferred_email = ''primary'',
      email_bounced = False, last_email_sent = None\<rparr>"

text \<open>
  Django's \<^verbatim>\<open>PatientEmail.objects.get_or_create(patient=p, defaults={"organization": org})\<close>:
  \<^verbatim>\<open>get\<close> on the rows of that patient, and \<^verbatim>\<open>create\<close> when there is none. \<^verbatim>\<open>get\<close> raises
  when it finds more than one row.
\<close>

definition get_or_create ::
  "patient \<Rightarrow> nat \<Rightarrow> patient_email list \<Rightarrow> exn + (patient_email \<times> bool \<times> patient_email list)" where
  "get_or_create p org tbl =
     (case filter (\<lambda>r. pk (patient r) = pk p) tbl of
        [] \<Rightarrow> (let obj = new_profile (fresh_id tbl) p org in Inr (obj, True, tbl @ [obj]))
      | [r] \<Rightarrow> Inr (r, False, tbl)
      | _ \<Rightarrow> Inl (Exn ''MultipleObjectsReturned'' ''get() returned more than one PatientEmail''))"

text \<open>
  model_extensions.py:
  \<^verbatim>\<open>
  def get_email_profile(self):
      email_profile, created = PatientEmail.objects.get_or_create(
          patient=self, defaults={"organization": self.organization})
      return email_profile
  \<close>
\<close>

definition get_email_profile :: "patient \<Rightarrow> patient_email list \<Rightarrow> exn + (patient_email \<times> patient_email list)" where
  "get_email_profile p tbl =
     (case get_or_create p (organization p) tbl of
        Inl e \<Rightarrow> Inl e
      | Inr (email_profile, created, tbl') \<Rightarrow> Inr (email_profile, tbl'))"

text \<open>The unique constraint of the \<^verbatim>\<open>OneToOneField\<close>: no two rows for one patient.\<close>

definition one_to_one :: "patient_email list \<Rightarrow> bool" where
  "one_to_one tbl = distinct (map (\<lambda>r. pk (patient r)) tbl)"

section \<open>PatientEmail.send_email (models.py)\<close>

text \<open>
  The first statement of the \<^verbatim>\<open>try\<close> block:
  \<^verbatim>\<open>
  if template_name and context is not None:
      context["patient"] = self.patient
      context["email_profile"] = self
      html_message = render_to_string(template_name, context)
      if not message:
          message = strip_tags(html_message)
  \<close>
  \<open>augment\<close> is the two assignments to the dictionary. \<open>render_stage\<close> returns the values
  of \<^verbatim>\<open>message\<close> and \<^verbatim>\<open>html_message\<close> after the statement, or the exception of the
  renderer; the state returned holds the caller's dictionary as the statement left it.
\<close>

definition augment :: "patient_email \<Rightarrow> template_dict \<Rightarrow> template_dict" where
  "augment self c = c(''patient'' \<mapsto> V_patient (patient self), ''email_profile'' \<mapsto> V_self)"

definition render_stage ::
  "env \<Rightarrow> string option \<Rightarrow> string option \<Rightarrow> string option \<Rightarrow> state
     \<Rightarrow> (exn + (string option \<times> string option)) \<times> state" where
  "render_stage E message html_message template_name st =
     (case template_name of
        None \<Rightarrow> (Inr (message, html_message), st)
      | Some tn \<Rightarrow>
          if tn = [] then (Inr (message, html_message), st)
          else (case st_ctx st of
                  None \<Rightarrow> (Inr (message, html_message), st)
                | Some c \<Rightarrow>
                    (let c' = augment (st_self st) c;
                         st1 = on_world (\<lambda>w. w\<lparr>rendered := rendered w @ [(tn, c')]\<rparr>)
                                 (st\<lparr>st_ctx := Some c'\<rparr>)
                     in case render_to_string E tn c' (st_self st) of
                          Inl e \<Rightarrow> (Inl e, st1)
                        | Inr h \<Rightarrow>
                            (Inr (if truthy message then message else Some (strip_tags E h),
                                  Some h), st1))))"

text \<open>
  The rest of the \<^verbatim>\<open>try\<close> block, from the values the first statement left:
  \<^verbatim>\<open>
  result = send_mail(subject=subject, message=message or "", from_email=from_email,
                     recipient_list=[email_address], html_message=html_message,
                     fail_silently=False)
  if result:
      self.last_email_sent = timezone.now()
      self.save(update_fields=["last_email_sent"])
  return bool(result)
  \<close>
  \<open>mail_for\<close> is the argument list of the call of \<^verbatim>\<open>send_mail\<close>.
\<close>

definition mail_for :: "string \<Rightarrow> string option \<Rightarrow> string option \<Rightarrow> string \<Rightarrow> string option \<Rightarrow> mail" where
  "mail_for subject message from_email email_address html_message =
     \<lparr>m_subject = subject, m_message = or_empty message, m_from_email = from_email,
      m_recipient_list = [email_address], m_html_message = html_message\<rparr>"

definition deliver ::
  "env \<Rightarrow> string \<Rightarrow> string option \<Rightarrow> string option \<Rightarrow> string option \<Rightarrow> string \<Rightarrow> state
     \<Rightarrow> (exn + bool) \<times> state" where
  "deliver E subject message html_message from_email email_address st =
     (let m = mail_for subject message from_email email_address html_message;
          st1 = on_world (\<lambda>w. w\<lparr>outbox := outbox w @ [m]\<rparr>) st
      in case send_mail E m of
           Inl e \<Rightarrow> (Inl e, st1)
         | Inr result \<Rightarrow>
             if result \<noteq> 0 then
               (let now = clock (st_world st1) + delay E;
                    st2 = on_world (\<lambda>w. w\<lparr>clock := now\<rparr>)
                            (st1\<lparr>st_self := (st_self st1)\<lparr>last_email_sent := Some now\<rparr>\<rparr>)
                in case save_last_email_sent (st_self st2) (table (st_world st2)) of
                     Inl e \<Rightarrow> (Inl e, st2)
                   | Inr tbl \<Rightarrow> (Inr True, on_world (\<lambda>w. w\<lparr>table := tbl\<rparr>) st2))
             else (Inr False, st1))"

text \<open>The whole \<^verbatim>\<open>try\<close> block.\<close>

definition send_email_try ::
  "env \<Rightarrow> string \<Rightarrow> string option \<Rightarrow> string option \<Rightarrow> string option \<Rightarrow> string option
     \<Rightarrow> string \<Rightarrow> state \<Rightarrow> (exn + bool) \<times> state" where
  "send_email_try E subject message html_message template_name from_email email_address st =
     (case render_stage E message html_message template_name st of
        (Inl e, st1) \<Rightarrow> (Inl e, st1)
      | (Inr (message', html_message'), st1) \<Rightarrow>
          deliver E subject message' html_message' from_email email_address st1)"

text \<open>
  \<^verbatim>\<open>
  def send_email(self, subject, message=None, html_message=None, template_name=None,
                 context=None, from_email=None):
      if not self.email_notifications_enabled:
          return False
      if self.email_bounced:
          return False
      email_address = self.get_preferred_email()
      if not email_address:
          return False
      try:
          ...
      except Exception as e:
          print(f"Failed to send email to patient {self.patient.pk}: {e}")
          return False
  \<close>
  The caller's dictionary is \<open>st_ctx\<close> of the state, before and after.
\<close>

definition send_email ::
  "env \<Rightarrow> string \<Rightarrow> string option \<Rightarrow> string option \<Rightarrow> string option \<Rightarrow> string option
     \<Rightarrow> state \<Rightarrow> bool \<times> state" where
  "send_email E subject message html_message template_name from_email st =
     (if \<not> email_notifications_enabled (st_self st) then (False, st)
      else if email_bounced (st_self st) then (False, st)
      else (case get_preferred_email (st_self st) of
              None \<Rightarrow> (False, st)
            | Some email_address \<Rightarrow>
                if email_address = [] then (False, st)
                else (case send_email_try E subject message html_message template_name
                             from_email email_address st of
                        (Inr b, st1) \<Rightarrow> (b, st1)
                      | (Inl e, st1) \<Rightarrow>
                          (False, on_world (\<lambda>w. w\<lparr>stdout := stdout w @ [failure_line (st_self st1) e]\<rparr>) st1))))"

text \<open>
  The three derived operations of \<^verbatim>\<open>PatientEmail\<close>. Each builds a dictionary of its own
  and passes it as \<^verbatim>\<open>context\<close>; the dictionary is local to the method, so the caller's
  \<open>st_ctx\<close> is restored after the call.
  \<^verbatim>\<open>
  def send_appointment_reminder(self, appointment_date, appointment_time=None):
      context = {"appointment_date": appointment_date, "appointment_time": appointment_time}
      return self.send_email(subject="Appointment Reminder",
          template_name="patient_email_plugin/emails/appointment_reminder.html", context=context)
  def send_welcome_email(self):
      return self.send_email(subject="Welcome to our healthcare system",
          template_name="patient_email_plugin/emails/welcome.html", context={})
  def send_care_plan_update(self, care_plan_details):
      context = {"care_plan_details": care_plan_details}
      return self.send_email(subject="Care Plan Update",
          template_name="patient_email_plugin/emails/care_plan_update.html", context=context)
  \<close>
\<close>

definition with_local_dict :: "template_dict \<Rightarrow> (state \<Rightarrow> bool \<times> state) \<Rightarrow> state \<Rightarrow> bool \<times> state" where
  "with_local_dict d f st =
     (case f (st\<lparr>st_ctx := Some d\<rparr>) of (b, st1) \<Rightarrow> (b, st1\<lparr>st_ctx := st_ctx st\<rparr>))"

definition send_appointment_reminder :: "env \<Rightarrow> pyval \<Rightarrow> pyval \<Rightarrow> state \<Rightarrow> bool \<times> state" where
  "send_appointment_reminder E appointment_date appointment_time =
     with_local_dict
       [''appointment_date'' \<mapsto> appointment_date, ''appointment_time'' \<mapsto> appointment_time]
       (send_email E ''Appointment Reminder'' None None
          (Some ''patient_email_plugin/emails/appointment_reminder.html'') None)"

definition send_welcome_email :: "env \<Rightarrow> state \<Rightarrow> bool \<times> state" where
  "send_welcome_email E =
     with_local_dict Map.empty
       (send_email E ''Welcome to our healthcare system'' None None
          (Some ''patient_email_plugin/emails/welcome.html'') None)"


section \<open>The methods added to Patient (model_extensions.py)\<close>

text \<open>
  Each of them fetches the profile first, outside any \<^verbatim>\<open>try\<close>, and then calls the method
  of the profile:
  \<^verbatim>\<open>
  email_profile = self.get_email_profile()
  return email_profile.send_email(subject=subject, message=message, ...)
  \<close>
  \<open>on_profile\<close> is that pattern: an exception of the fetch leaves the method, otherwise the
  result is the profile method's. The caller's dictionary and the world are returned.
\<close>

definition on_profile ::
  "patient \<Rightarrow> (state \<Rightarrow> bool \<times> state) \<Rightarrow> template_dict option \<Rightarrow> world
     \<Rightarrow> (exn + bool) \<times> template_dict option \<times> world" where
  "on_profile p f c wd =
     (case get_email_profile p (table wd) of
        Inl e \<Rightarrow> (Inl e, c, wd)
      | Inr (email_profile, tbl) \<Rightarrow>
          (case f \<lparr>st_self = email_profile, st_ctx = c, st_world = wd\<lparr>table := tbl\<rparr>\<rparr> of
             (b, st) \<Rightarrow> (Inr b, st_ctx st, st_world st)))"

definition patient_send_email ::
  "env \<Rightarrow> patient \<Rightarrow> string \<Rightarrow> string option \<Rightarrow> string option \<Rightarrow> string option \<Rightarrow> string option
     \<Rightarrow> template_dict option \<Rightarrow> world \<Rightarrow> (exn + bool) \<times> template_dict option \<times> world" where
  "patient_send_email E p subject message html_message template_name from_email =
     on_profile p (send_email E subject message html_message template_name from_email)"

definition patient_send_appointment_reminder ::
  "env \<Rightarrow> patient \<Rightarrow> pyval \<Rightarrow> pyval \<Rightarrow> world \<Rightarrow> (exn + bool) \<times> world" where
  "patient_send_appointment_reminder E p appointment_date appointment_time wd =
     (case on_profile p (send_appointment_reminder E appointment_date appointment_time) None wd of
        (r, c, wd1) \<Rightarrow> (r, wd1))"

definition patient_send_welcome_email :: "env \<Rightarrow> patient \<Rightarrow> world \<Rightarrow> (exn + bool) \<times> world" where
  "patient_send_welcome_email E p wd =
     (case on_profile p (send_welcome_email E) None wd of (r, c, wd1) \<Rightarrow> (r, wd1))"


section \<open>The quick-action endpoint (views.py)\<close>

record user =
  has_perm :: "string \<Rightarrow> bool"
  user_organization :: nat

text \<open>\<open>post\<close> is \<^verbatim>\<open>request.POST\<close>; \<^verbatim>\<open>request.POST.get(k)\<close> is \<^verbatim>\<open>None\<close> for a missing key.\<close>

record request =
  req_user :: user
  post :: "string \<Rightarrow> string option"

datatype json = J_bool bool | J_str string

text \<open>A \<^verbatim>\<open>JsonResponse\<close> is the dictionary it was built from, in the order written.\<close>

type_synonym response = "(string \<times> json) list"

text \<open>A value read from \<^verbatim>\<open>request.POST\<close>, as a dictionary value.\<close>

definition post_value :: "string option \<Rightarrow> pyval" where
  "post_value v = (case v of None \<Rightarrow> V_none | Some s \<Rightarrow> V_str s)"

text \<open>
  \<^verbatim>\<open>get_object_or_404(Patient, pk=patient_id, organization=request.user.organization)\<close>;
  \<^verbatim>\<open>pk\<close> is the primary key, so at most one row matches.
\<close>

definition get_object_or_404 :: "nat \<Rightarrow> nat \<Rightarrow> patient list \<Rightarrow> exn + patient" where
  "get_object_or_404 patient_id org ps =
     (case List.find (\<lambda>p. pk p = patient_id \<and> organization p = org) ps of
        None \<Rightarrow> Inl (Exn ''Http404'' ''No Patient matches the given query.'')
      | Some p \<Rightarrow> Inr p)"

text \<open>The \<^verbatim>\<open>JsonResponse\<close> at the end of the view.\<close>

definition action_response :: "bool \<Rightarrow> string \<Rightarrow> response" where
  "action_response success msg = [(''success'', J_bool success), (''message'', J_str msg)]"

text \<open>
  \<^verbatim>\<open>
  def ajax_patient_email_quick_actions(request, patient_id):
      if not request.user.has_perm("patient_email_plugin.can_send_patient_emails"):
          return JsonResponse({"success": False, "error": "Permission denied"})
      patient = get_object_or_404(Patient, pk=patient_id, organization=request.user.organization)
      action = request.POST.get("action")
      success = False
      message = "Unknown action"
      if action == "send_welcome":
          success = patient.send_welcome_email()
          message = "Welcome email sent" if success else "Failed to send welcome email"
      elif action == "send_appointment_reminder":
          appointment_date = request.POST.get("appointment_date")
          appointment_time = request.POST.get("appointment_time")
          success = patient.send_appointment_reminder(appointment_date, appointment_time)
          message = ("Appointment reminder sent" if success
                     else "Failed to send appointment reminder")
      elif action == "verify_email":
          success = patient.send_email(subject="Please verify your email address",
              template_name="patient_email_plugin/emails/verify_email.html", context={})
          message = ("Verification email sent" if success
                     else "Failed to send verification email")
      return JsonResponse({"success": success, "message": message})
  \<close>
  An exception that leaves a send method leaves the view.
\<close>

definition ajax_patient_email_quick_actions ::
  "env \<Rightarrow> request \<Rightarrow> nat \<Rightarrow> world \<Rightarrow> (exn + response) \<times> world" where
  "ajax_patient_email_quick_actions E rq patient_id wd =
     (if \<not> has_perm (req_user rq) ''patient_email_plugin.can_send_patient_emails''
      then (Inr [(''success'', J_bool False), (''error'', J_str ''Permission denied'')], wd)
      else (case get_object_or_404 patient_id (user_organization (req_user rq)) (patients wd) of
              Inl e \<Rightarrow> (Inl e, wd)
            | Inr p \<Rightarrow>
                (let action = post rq ''action'' in
                 if action = Some ''send_welcome'' then
                   (case patient_send_welcome_email E p wd of
                      (Inl e, wd1) \<Rightarrow> (Inl e, wd1)
                    | (Inr success, wd1) \<Rightarrow>
                        (Inr (action_response success
                                (if success then ''Welcome email sent''
                                 else ''Failed to send welcome email'')), wd1))
                 else if action = Some ''send_appointment_reminder'' then
                   (case patient_send_appointment_reminder E p
                           (post_value (post rq ''appointment_date''))
                           (post_value (post rq ''appointment_time'')) wd of
                      (Inl e, wd1) \<Rightarrow> (Inl e, wd1)
                    | (Inr success, wd1) \<Rightarrow>
                        (Inr (action_response success
                                (if success then ''Appointment reminder sent''
                                 else ''Failed to send appointment reminder'')), wd1))
                 else if action = Some ''verify_email'' then
                   (case patient_send_email E p ''Please verify your email address'' None None
                           (Some ''patient_email_plugin/emails/verify_email.html'') None
                           (Some Map.empty) wd of
                      (Inl e, c, wd1) \<Rightarrow> (Inl e, wd1)
                    | (Inr success, c, wd1) \<Rightarrow>
                        (Inr (action_response success
                                (if success then ''Verification email sent''
                                 else ''Failed to send verification email'')), wd1))
                 else (Inr (action_response False ''Unknown action''), wd))))"

section \<open>EmailTemplateForm.clean_name (forms.py)\<close>







section \<open>Example values\<close>

text \<open>A patient, her profile, an environment whose collaborators all succeed, and a world
  holding both rows. \<open>untag\<close> is the example environment's \<^verbatim>\<open>strip_tags\<close>: it drops
  what stands between \<open><\<close> and \<open>>\<close>.\<close>

definition alice :: patient where
  "alice = \<lparr>pk = 7, organization = 3\<rparr>"

definition alice_profile :: patient_email where
  "alice_profile = (new_profile 1 alice 3)\<lparr>email := Some ''a@x.com''\<rparr>"

fun untag :: "bool \<Rightarrow> string \<Rightarrow> string" where
  "untag inside [] = []"
| "untag inside (c # cs) =
     (if c = CHR ''<'' then untag True cs
      else if c = CHR ''>'' then untag False cs
      else if inside then untag inside cs
      else c # untag inside cs)"

definition test_env :: env where
  "test_env = \<lparr>render_to_string = (\<lambda>tn c self. Inr ''<p>Hi</p>''), strip_tags = untag False,
               send_mail = (\<lambda>m. Inr 1), delay = 5\<rparr>"

definition world0 :: world where
  "world0 = \<lparr>table = [alice_profile], patients = [alice], outbox = [], rendered = [],
             stdout = [], clock = 100\<rparr>"

definition state0 :: state where
  "state0 = \<lparr>st_self = alice_profile, st_ctx = None, st_world = world0\<rparr>"

text \<open>The same state after the profile's row was deleted from the table (the object is
  still in memory), an environment whose transport raises, a staff user who may send
  mail, and a quick-action request with an action the view does not know.\<close>

definition state_no_row :: state where
  "state_no_row = state0\<lparr>st_world := world0\<lparr>table := []\<rparr>\<rparr>"

definition smtp_down_env :: env where
  "smtp_down_env = test_env\<lparr>send_mail := (\<lambda>m. Inl (Exn ''SMTPException'' ''Connection refused''))\<rparr>"

definition staff :: user where
  "staff = \<lparr>has_perm = (\<lambda>perm. perm = ''patient_email_plugin.can_send_patient_emails''),
            user_organization = 3\<rparr>"

definition unknown_request :: request where
  "unknown_request = \<lparr>req_user = staff, post = [''action'' \<mapsto> ''unknown_action'']\<rparr>"

lemmas example_defs = alice_def alice_profile_def test_env_def world0_def state0_def
  new_profile_def state_no_row_def smtp_down_env_def staff_def unknown_request_def

lemmas send_defs = send_email_def send_email_try_def render_stage_def deliver_def on_world_def
  save_last_email_sent_def or_empty_def truthy_def get_preferred_email_def mail_for_def
  augment_def failure_line_def Let_def

section \<open>The preferred address\<close>

text \<open>
  C2: \<open>get_preferred_email\<close> returns \<open>secondary_email\<close> when \<open>preferred_email\<close> is
  "secondary" and \<open>secondary_email\<close> is non-empty; otherwise it returns \<open>email\<close>, falling
  back to \<open>secondary_email\<close> when \<open>email\<close> is empty; and when both addresses are empty the
  value returned is empty or absent (false in Python).
\<close>

theorem get_preferred_email_spec:
  "(preferred_email self = ''secondary'' \<and> truthy (secondary_email self)
      \<longrightarrow> get_preferred_email self = secondary_email self)
   \<and> (\<not> (preferred_email self = ''secondary'' \<and> truthy (secondary_email self))
      \<longrightarrow> (truthy (email self) \<longrightarrow> get_preferred_email self = email self)
        \<and> (\<not> truthy (email self) \<longrightarrow> get_preferred_email self = secondary_email self))
   \<and> (\<not> truthy (email self) \<and> \<not> truthy (secondary_email self)
      \<longrightarrow> \<not> truthy (get_preferred_email self))"
  by (simp add: get_preferred_email_def)

theorem get_preferred_email_spec_witness:
  "preferred_email (alice_profile\<lparr>secondary_email := Some ''b@x.com'', preferred_email := ''secondary''\<rparr>)
     = ''secondary''
   \<and> truthy (secondary_email
        (alice_profile\<lparr>secondary_email := Some ''b@x.com'', preferred_email := ''secondary''\<rparr>))
   \<and> get_preferred_email
        (alice_profile\<lparr>secondary_email := Some ''b@x.com'', preferred_email := ''secondary''\<rparr>)
     = Some ''b@x.com''"
  using get_preferred_email_spec
    [of "alice_profile\<lparr>secondary_email := Some ''b@x.com'', preferred_email := ''secondary''\<rparr>"]
  by (simp add: truthy_def)

section \<open>The eligibility gate\<close>

text \<open>
  C1: for every profile and every environment, \<open>send_email\<close> returns false, raises nothing
  and leaves the whole state as it was (no message handed to the transport, nothing
  rendered, nothing printed, the caller's dictionary and the table untouched) when
  notifications are disabled, or the bounced flag is set, or \<open>get_preferred_email\<close> yields
  no address. The three checks read fields only, in the order of the source, and the
  first one that fails returns.
\<close>

theorem send_email_gate:
  "\<not> email_notifications_enabled (st_self st) \<or> email_bounced (st_self st)
     \<or> \<not> truthy (get_preferred_email (st_self st))
   \<Longrightarrow> send_email E subject message html_message template_name from_email st = (False, st)"
  by (auto simp: send_email_def truthy_def split: option.splits)

theorem send_email_gate_witness:
  "email_bounced (st_self (state0\<lparr>st_self := alice_profile\<lparr>email_bounced := True\<rparr>\<rparr>))
   \<and> send_email test_env ''Hi'' (Some ''Body'') None None None
        (state0\<lparr>st_self := alice_profile\<lparr>email_bounced := True\<rparr>\<rparr>)
      = (False, state0\<lparr>st_self := alice_profile\<lparr>email_bounced := True\<rparr>\<rparr>)"
  using send_email_gate [of "state0\<lparr>st_self := alice_profile\<lparr>email_bounced := True\<rparr>\<rparr>"
      test_env "''Hi''" "Some ''Body''" None None None]
  by simp

section \<open>The outcomes of a call\<close>

text \<open>The template statement either does nothing, or raises what the renderer raised, or
  yields the rendered text; in the last two cases the dictionary has been augmented and
  the renderer invoked once.\<close>

lemma render_stage_cases:
  obtains (skip)
    "template_name = None \<or> template_name = Some [] \<or> st_ctx st = None"
    "render_stage E message html_message template_name st = (Inr (message, html_message), st)"
  | (raises) tn c e where "template_name = Some tn" "tn \<noteq> []" "st_ctx st = Some c"
      "render_to_string E tn (augment (st_self st) c) (st_self st) = Inl e"
      "render_stage E message html_message template_name st =
         (Inl e, st\<lparr>st_ctx := Some (augment (st_self st) c),
                    st_world := (st_world st)\<lparr>rendered := rendered (st_world st)
                                   @ [(tn, augment (st_self st) c)]\<rparr>\<rparr>)"
  | (ok) tn c h where "template_name = Some tn" "tn \<noteq> []" "st_ctx st = Some c"
      "render_to_string E tn (augment (st_self st) c) (st_self st) = Inr h"
      "render_stage E message html_message template_name st =
         (Inr (if truthy message then message else Some (strip_tags E h), Some h),
          st\<lparr>st_ctx := Some (augment (st_self st) c),
             st_world := (st_world st)\<lparr>rendered := rendered (st_world st)
                            @ [(tn, augment (st_self st) c)]\<rparr>\<rparr>)"
proof (cases "template_name = None \<or> template_name = Some [] \<or> st_ctx st = None")
  case True
  then have "render_stage E message html_message template_name st = (Inr (message, html_message), st)"
    by (auto simp: render_stage_def split: option.splits)
  with True show thesis by (rule skip)
next
  case False
  then obtain tn c where tc: "template_name = Some tn" "tn \<noteq> []" "st_ctx st = Some c"
    by auto
  show thesis
  proof (cases "render_to_string E tn (augment (st_self st) c) (st_self st)")
    case (Inl e)
    with tc show thesis
      by (intro raises [of tn c e]) (simp_all add: render_stage_def on_world_def Let_def)
  next
    case (Inr h)
    with tc show thesis
      by (intro ok [of tn c h]) (simp_all add: render_stage_def on_world_def Let_def)
  qed
qed

lemma deliver_cases:
  fixes E subject message html_message from_email email_address st
  defines "m \<equiv> mail_for subject message from_email email_address html_message"
    and "now \<equiv> clock (st_world st) + delay E"
  obtains (transport_raises)
    e where "send_mail E m = Inl e"
      "deliver E subject message html_message from_email email_address st =
         (Inl e, st\<lparr>st_world := (st_world st)\<lparr>outbox := outbox (st_world st) @ [m]\<rparr>\<rparr>)"
  | (refused) "send_mail E m = Inr 0"
      "deliver E subject message html_message from_email email_address st =
         (Inr False, st\<lparr>st_world := (st_world st)\<lparr>outbox := outbox (st_world st) @ [m]\<rparr>\<rparr>)"
  | (save_raises) n e where "send_mail E m = Inr n" "n \<noteq> 0"
      "save_last_email_sent ((st_self st)\<lparr>last_email_sent := Some now\<rparr>) (table (st_world st)) = Inl e"
      "deliver E subject message html_message from_email email_address st =
         (Inl e, st\<lparr>st_self := (st_self st)\<lparr>last_email_sent := Some now\<rparr>,
                    st_world := (st_world st)\<lparr>outbox := outbox (st_world st) @ [m], clock := now\<rparr>\<rparr>)"
  | (sent) n tbl where "send_mail E m = Inr n" "n \<noteq> 0"
      "save_last_email_sent ((st_self st)\<lparr>last_email_sent := Some now\<rparr>) (table (st_world st)) = Inr tbl"
      "deliver E subject message html_message from_email email_address st =
         (Inr True, st\<lparr>st_self := (st_self st)\<lparr>last_email_sent := Some now\<rparr>,
                      st_world := (st_world st)\<lparr>outbox := outbox (st_world st) @ [m], clock := now,
                                     table := tbl\<rparr>\<rparr>)"
proof (cases "send_mail E m")
  case (Inl e)
  then show thesis
    by (intro transport_raises [of e]) (simp_all add: deliver_def on_world_def Let_def m_def)
next
  case (Inr n)
  show thesis
  proof (cases "n = 0")
    case True
    with Inr show thesis
      by (intro refused) (simp_all add: deliver_def on_world_def Let_def m_def)
  next
    case False
    show thesis
    proof (cases "save_last_email_sent ((st_self st)\<lparr>last_email_sent := Some now\<rparr>)
                    (table (st_world st))")
      case (Inl e)
      with Inr False show thesis
        by (intro save_raises [of n e])
           (simp_all add: deliver_def on_world_def Let_def m_def now_def)
    next
      case save: (Inr tbl)
      with Inr False show thesis
        by (intro sent [of n tbl])
           (simp_all add: deliver_def on_world_def Let_def m_def now_def)
    qed
  qed
qed

lemma render_stage_frame:
  assumes "render_stage E message html_message template_name st = (r, st1)"
  shows "st_self st1 = st_self st" "table (st_world st1) = table (st_world st)"
    "outbox (st_world st1) = outbox (st_world st)" "stdout (st_world st1) = stdout (st_world st)"
    "clock (st_world st1) = clock (st_world st)" "patients (st_world st1) = patients (st_world st)"
  using assms
  by (cases rule: render_stage_cases [of template_name st E message html_message]; auto)+

lemma ineligible_returns_false:
  "\<not> email_notifications_enabled (st_self st) \<or> email_bounced (st_self st)
     \<or> \<not> truthy (get_preferred_email (st_self st))
   \<Longrightarrow> send_email E subject message html_message template_name from_email st = (False, st)"
  by (auto simp: send_email_def truthy_def split: option.splits)

lemma send_email_eligible:
  assumes "email_notifications_enabled (st_self st)" "\<not> email_bounced (st_self st)"
    and "get_preferred_email (st_self st) = Some a" "a \<noteq> []"
  shows "send_email E subject message html_message template_name from_email st =
     (case send_email_try E subject message html_message template_name from_email a st of
        (Inr b, st1) \<Rightarrow> (b, st1)
      | (Inl e, st1) \<Rightarrow>
          (False, on_world (\<lambda>w. w\<lparr>stdout := stdout w @ [failure_line (st_self st1) e]\<rparr>) st1))"
  using assms by (simp add: send_email_def)

lemma send_email_cases:
  obtains (skipped)
    "\<not> email_notifications_enabled (st_self st) \<or> email_bounced (st_self st)
       \<or> \<not> truthy (get_preferred_email (st_self st))"
    "send_email E subject message html_message template_name from_email st = (False, st)"
  | (render_raises) a e st1 where
    "email_notifications_enabled (st_self st)" "\<not> email_bounced (st_self st)"
    "get_preferred_email (st_self st) = Some a" "a \<noteq> []"
    "render_stage E message html_message template_name st = (Inl e, st1)"
    "send_email E subject message html_message template_name from_email st =
       (False, st1\<lparr>st_world := (st_world st1)\<lparr>stdout := stdout (st_world st1)
                                   @ [failure_line (st_self st) e]\<rparr>\<rparr>)"
  | (transport_raises) a message' html_message' e st1 where
    "email_notifications_enabled (st_self st)" "\<not> email_bounced (st_self st)"
    "get_preferred_email (st_self st) = Some a" "a \<noteq> []"
    "render_stage E message html_message template_name st = (Inr (message', html_message'), st1)"
    "send_mail E (mail_for subject message' from_email a html_message') = Inl e"
    "send_email E subject message html_message template_name from_email st =
       (False, st1\<lparr>st_world := (st_world st1)
          \<lparr>outbox := outbox (st_world st) @ [mail_for subject message' from_email a html_message'],
           stdout := stdout (st_world st) @ [failure_line (st_self st) e]\<rparr>\<rparr>)"
  | (refused) a message' html_message' st1 where
    "email_notifications_enabled (st_self st)" "\<not> email_bounced (st_self st)"
    "get_preferred_email (st_self st) = Some a" "a \<noteq> []"
    "render_stage E message html_message template_name st = (Inr (message', html_message'), st1)"
    "send_mail E (mail_for subject message' from_email a html_message') = Inr 0"
    "send_email E subject message html_message template_name from_email st =
       (False, st1\<lparr>st_world := (st_world st1)
          \<lparr>outbox := outbox (st_world st) @ [mail_for subject message' from_email a html_message']\<rparr>\<rparr>)"
  | (save_raises) a message' html_message' n e st1 where
    "email_notifications_enabled (st_self st)" "\<not> email_bounced (st_self st)"
    "get_preferred_email (st_self st) = Some a" "a \<noteq> []"
    "render_stage E message html_message template_name st = (Inr (message', html_message'), st1)"
    "send_mail E (mail_for subject message' from_email a html_message') = Inr n" "n \<noteq> 0"
    "save_last_email_sent ((st_self st)\<lparr>last_email_sent := Some (clock (st_world st) + delay E)\<rparr>)
       (table (st_world st)) = Inl e"
    "send_email E subject message html_message template_name from_email st =
       (False, st1\<lparr>st_self := (st_self st)\<lparr>last_email_sent := Some (clock (st_world st) + delay E)\<rparr>,
                  st_world := (st_world st1)
          \<lparr>outbox := outbox (st_world st) @ [mail_for subject message' from_email a html_message'],
           clock := clock (st_world st) + delay E,
           stdout := stdout (st_world st)
             @ [failure_line ((st_self st)\<lparr>last_email_sent := Some (clock (st_world st) + delay E)\<rparr>) e]\<rparr>\<rparr>)"
  | (sent) a message' html_message' n tbl st1 where
    "email_notifications_enabled (st_self st)" "\<not> email_bounced (st_self st)"
    "get_preferred_email (st_self st) = Some a" "a \<noteq> []"
    "render_stage E message html_message template_name st = (Inr (message', html_message'), st1)"
    "send_mail E (mail_for subject message' from_email a html_message') = Inr n" "n \<noteq> 0"
    "save_last_email_sent ((st_self st)\<lparr>last_email_sent := Some (clock (st_world st) + delay E)\<rparr>)
       (table (st_world st)) = Inr tbl"
    "send_email E subject message html_message template_name from_email st =
       (True, st1\<lparr>st_self := (st_self st)\<lparr>last_email_sent := Some (clock (st_world st) + delay E)\<rparr>,
                 st_world := (st_world st1)
          \<lparr>outbox := outbox (st_world st) @ [mail_for subject message' from_email a html_message'],
           clock := clock (st_world st) + delay E, table := tbl\<rparr>\<rparr>)"
proof (cases "\<not> email_notifications_enabled (st_self st) \<or> email_bounced (st_self st)
       \<or> \<not> truthy (get_preferred_email (st_self st))")
  case True
  then show thesis
    using ineligible_returns_false [OF True] by (rule skipped)
next
  case False
  then obtain a where gate: "email_notifications_enabled (st_self st)" "\<not> email_bounced (st_self st)"
    "get_preferred_email (st_self st) = Some a" "a \<noteq> []"
    by (auto simp: truthy_def split: option.splits)
  note unfold = send_email_eligible [OF gate, of E subject message html_message template_name from_email]
  obtain r st1 where rs: "render_stage E message html_message template_name st = (r, st1)"
    by (cases "render_stage E message html_message template_name st")
  note fr = render_stage_frame [OF rs]
  show thesis
  proof (cases r)
    case (Inl e)
    have "send_email E subject message html_message template_name from_email st =
       (False, st1\<lparr>st_world := (st_world st1)\<lparr>stdout := stdout (st_world st1)
                                   @ [failure_line (st_self st) e]\<rparr>\<rparr>)"
      using rs Inl by (simp add: unfold send_email_try_def on_world_def fr)
    with gate rs [unfolded Inl] show thesis by (rule render_raises)
  next
    case (Inr mh)
    then obtain message' html_message' where mh: "r = Inr (message', html_message')"
      by (cases mh) auto
    note rs' = rs [unfolded mh]
    have body: "send_email_try E subject message html_message template_name from_email a st =
        deliver E subject message' html_message' from_email a st1"
      using rs' by (simp add: send_email_try_def)
    show thesis
    proof (cases rule: deliver_cases [of E subject message' from_email a html_message' st1])
      case (transport_raises e)
      have "send_email E subject message html_message template_name from_email st =
       (False, st1\<lparr>st_world := (st_world st1)
          \<lparr>outbox := outbox (st_world st) @ [mail_for subject message' from_email a html_message'],
           stdout := stdout (st_world st) @ [failure_line (st_self st) e]\<rparr>\<rparr>)"
        using transport_raises by (simp add: unfold body on_world_def fr)
      with gate rs' transport_raises(1) show thesis by (rule that(3))
    next
      case refused
      have "send_email E subject message html_message template_name from_email st =
       (False, st1\<lparr>st_world := (st_world st1)
          \<lparr>outbox := outbox (st_world st) @ [mail_for subject message' from_email a html_message']\<rparr>\<rparr>)"
        using refused by (simp add: unfold body fr)
      with gate rs' refused(1) show thesis by (rule that(4))
    next
      case (save_raises n e)
      have "send_email E subject message html_message template_name from_email st =
       (False, st1\<lparr>st_self := (st_self st)\<lparr>last_email_sent := Some (clock (st_world st) + delay E)\<rparr>,
                  st_world := (st_world st1)
          \<lparr>outbox := outbox (st_world st) @ [mail_for subject message' from_email a html_message'],
           clock := clock (st_world st) + delay E,
           stdout := stdout (st_world st)
             @ [failure_line ((st_self st)\<lparr>last_email_sent := Some (clock (st_world st) + delay E)\<rparr>) e]\<rparr>\<rparr>)"
        using save_raises by (simp add: unfold body on_world_def fr)
      with gate rs' save_raises(1,2) save_raises(3) [unfolded fr] show thesis by (rule that(5))
    next
      case (sent n tbl)
      have "send_email E subject message html_message template_name from_email st =
       (True, st1\<lparr>st_self := (st_self st)\<lparr>last_email_sent := Some (clock (st_world st) + delay E)\<rparr>,
                 st_world := (st_world st1)
          \<lparr>outbox := outbox (st_world st) @ [mail_for subject message' from_email a html_message'],
           clock := clock (st_world st) + delay E, table := tbl\<rparr>\<rparr>)"
        using sent by (simp add: unfold body fr)
      with gate rs' sent(1,2) sent(3) [unfolded fr] show thesis by (rule that(6))
    qed
  qed
qed

lemma render_stage_run:
  assumes "template_name = Some tn" "tn \<noteq> []" "st_ctx st = Some c"
    and "render_stage E message html_message template_name st = (r, st1)"
  shows "st_ctx st1 = Some (augment (st_self st) c)"
    and "rendered (st_world st1) = rendered (st_world st) @ [(tn, augment (st_self st) c)]"
    and "\<And>h. render_to_string E tn (augment (st_self st) c) (st_self st) = Inr h \<Longrightarrow>
           r = Inr (if truthy message then message else Some (strip_tags E h), Some h)"
  using assms
  by (auto simp: render_stage_def on_world_def Let_def split: sum.splits)

lemma or_empty_Some [simp]: "or_empty (Some s) = s"
  by (simp add: or_empty_def truthy_def)


lemma failure_line_last [simp]:
  "failure_line (s\<lparr>last_email_sent := t\<rparr>) e = failure_line s e"
  by (simp add: failure_line_def)

lemma save_last_email_sent_Inr:
  assumes "save_last_email_sent s tbl = Inr tbl'"
  shows "tbl' = map (\<lambda>r. if row_id r = row_id s
                          then r\<lparr>last_email_sent := last_email_sent s\<rparr> else r) tbl"
    and "\<exists>r\<in>set tbl. row_id r = row_id s"
  using assms
  by (auto simp: save_last_email_sent_def filter_empty_conv split: option.splits if_splits)



section \<open>Fetching the profile\<close>

lemma filter_key_distinct:
  "distinct (map f xs) \<Longrightarrow> filter (\<lambda>r. f r = k) xs = [] \<or> (\<exists>r. filter (\<lambda>r. f r = k) xs = [r])"
proof (induction xs)
  case Nil
  then show ?case by simp
next
  case (Cons x xs)
  show ?case
  proof (cases "f x = k")
    case True
    with Cons.prems have "filter (\<lambda>r. f r = k) xs = []"
      by (auto simp: filter_empty_conv image_iff)
    with True show ?thesis by simp
  next
    case False
    with Cons show ?thesis by simp
  qed
qed

lemma get_email_profile_cases:
  assumes "one_to_one tbl"
  obtains (created) "filter (\<lambda>r. pk (patient r) = pk p) tbl = []"
      "get_email_profile p tbl =
         Inr (new_profile (fresh_id tbl) p (organization p),
              tbl @ [new_profile (fresh_id tbl) p (organization p)])"
  | (found) r where "filter (\<lambda>r. pk (patient r) = pk p) tbl = [r]"
      "get_email_profile p tbl = Inr (r, tbl)"
proof -
  from assms have "distinct (map (\<lambda>r. pk (patient r)) tbl)"
    by (simp add: one_to_one_def)
  from filter_key_distinct [OF this, of "pk p"]
  show thesis
  proof
    assume e: "filter (\<lambda>r. pk (patient r) = pk p) tbl = []"
    then show thesis
      by (intro created) (simp_all add: get_email_profile_def get_or_create_def Let_def)
  next
    assume "\<exists>r. filter (\<lambda>r. pk (patient r) = pk p) tbl = [r]"
    then obtain r where "filter (\<lambda>r. pk (patient r) = pk p) tbl = [r]" ..
    then show thesis
      by (intro found [of r]) (simp_all add: get_email_profile_def get_or_create_def)
  qed
qed


text \<open>
  C8: fetching the email profile of a patient is idempotent. On a table that satisfies
  the unique constraint the fetch returns a profile of that patient; when the table held
  none, the profile is a new row with the default settings and the patient's own
  organization, appended to the table; when it held one, the table is unchanged. A
  further fetch on the resulting table returns the same profile and the same table, and
  the resulting table holds exactly one row for the patient and still satisfies the
  constraint.
\<close>

theorem get_email_profile_idempotent:
  assumes "one_to_one tbl"
  shows "\<exists>prof tbl'. get_email_profile p tbl = Inr (prof, tbl')
           \<and> pk (patient prof) = pk p
           \<and> one_to_one tbl'
           \<and> get_email_profile p tbl' = Inr (prof, tbl')
           \<and> filter (\<lambda>r. pk (patient r) = pk p) tbl' = [prof]
           \<and> (filter (\<lambda>r. pk (patient r) = pk p) tbl = [] \<longrightarrow>
                tbl' = tbl @ [prof]
                \<and> prof = \<lparr>row_id = Some (fresh_id tbl), profile_organization = organization p,
                          patient = p, email = None, secondary_email = None,
                          email_verified = False, email_notifications_enabled = True,
                          preferred_email = ''primary'', email_bounced = False,
                          last_email_sent = None\<rparr>)
           \<and> (filter (\<lambda>r. pk (patient r) = pk p) tbl \<noteq> [] \<longrightarrow> tbl' = tbl)"
  using assms
proof (cases rule: get_email_profile_cases [where p = p])
  case created
  let ?n = "new_profile (fresh_id tbl) p (organization p)"
  have pkn: "pk (patient ?n) = pk p" by (simp add: new_profile_def)
  from created(1) have notin: "pk p \<notin> (\<lambda>r. pk (patient r)) ` set tbl"
    by (auto simp: filter_empty_conv)
  have f': "filter (\<lambda>r. pk (patient r) = pk p) (tbl @ [?n]) = [?n]"
    using created(1) pkn by simp
  have o': "one_to_one (tbl @ [?n])"
    using assms notin pkn by (simp add: one_to_one_def)
  have again: "get_email_profile p (tbl @ [?n]) = Inr (?n, tbl @ [?n])"
    using f' by (simp add: get_email_profile_def get_or_create_def Let_def)
  show ?thesis
    using created pkn f' o' again by (simp add: new_profile_def)
next
  case (found r)
  then have "r \<in> set (filter (\<lambda>r. pk (patient r) = pk p) tbl)" by simp
  then have "pk (patient r) = pk p" by simp
  with found assms show ?thesis by simp
qed

theorem get_email_profile_idempotent_witness:
  "one_to_one []
   \<and> get_email_profile alice [] = Inr (new_profile 1 alice 3, [new_profile 1 alice 3])
   \<and> get_email_profile alice [new_profile 1 alice 3]
       = Inr (new_profile 1 alice 3, [new_profile 1 alice 3])
   \<and> profile_organization (new_profile 1 alice 3) = organization alice"
  using get_email_profile_idempotent [of "[]" alice]
  by (auto simp: one_to_one_def fresh_id_def new_profile_def alice_def)

section \<open>The timestamp of the last send\<close>

text \<open>
  C4, as amended: when \<open>send_email\<close> returns true, \<open>last_email_sent\<close> of the object is the
  current time, which is at or after the clock at the start of the call; a row of the
  profile exists, and the table differs from the old one in that column of the rows of
  the profile only. When it returns false the table is unchanged, and the object is
  unchanged as well unless the transport had accepted the message in this call.
\<close>

theorem last_email_sent_frame:
  assumes "send_email E subject message html_message template_name from_email st = (b, st')"
  shows "(b \<longrightarrow> st_self st' = (st_self st)\<lparr>last_email_sent := Some (clock (st_world st) + delay E)\<rparr>
            \<and> table (st_world st') =
                map (\<lambda>r. if row_id r = row_id (st_self st)
                         then r\<lparr>last_email_sent := Some (clock (st_world st) + delay E)\<rparr> else r)
                  (table (st_world st))
            \<and> (\<exists>r\<in>set (table (st_world st)). row_id r = row_id (st_self st))
            \<and> clock (st_world st) \<le> clock (st_world st) + delay E)
       \<and> (\<not> b \<longrightarrow> table (st_world st') = table (st_world st))
       \<and> (\<not> b \<and> st_self st' \<noteq> st_self st \<longrightarrow>
            (\<exists>m n. outbox (st_world st') = outbox (st_world st) @ [m]
                \<and> send_mail E m = Inr n \<and> n \<noteq> 0))"
proof (cases rule: send_email_cases [where st = st and E = E and subject = subject
      and message = message and html_message = html_message
      and template_name = template_name and from_email = from_email])
  case skipped
  with assms show ?thesis by simp
next
  case (render_raises a e st1)
  with assms render_stage_frame [OF render_raises(5)] show ?thesis by auto
next
  case (transport_raises a message' html_message' e st1)
  with assms render_stage_frame [OF transport_raises(5)] show ?thesis by auto
next
  case (refused a message' html_message' st1)
  with assms render_stage_frame [OF refused(5)] show ?thesis by auto
next
  case (save_raises a message' html_message' n e st1)
  with assms render_stage_frame [OF save_raises(5)] show ?thesis by auto
next
  case (sent a message' html_message' n tbl st1)
  with assms render_stage_frame [OF sent(5)] save_last_email_sent_Inr [OF sent(8)]
  show ?thesis by auto
qed

theorem last_email_sent_frame_witness:
  "fst (send_email test_env ''Hi'' (Some ''Body'') None None None state0)
   \<and> st_self (snd (send_email test_env ''Hi'' (Some ''Body'') None None None state0))
       = alice_profile\<lparr>last_email_sent := Some 105\<rparr>
   \<and> table (st_world (snd (send_email test_env ''Hi'' (Some ''Body'') None None None state0)))
       = [alice_profile\<lparr>last_email_sent := Some 105\<rparr>]"
  using last_email_sent_frame [where E = test_env and subject = "''Hi''"
      and message = "Some ''Body''" and html_message = None and template_name = None
      and from_email = None and st = state0
      and b = "fst (send_email test_env ''Hi'' (Some ''Body'') None None None state0)"
      and st' = "snd (send_email test_env ''Hi'' (Some ''Body'') None None None state0)"]
  by (simp add: send_defs example_defs)

text \<open>
  The claim as stated fails when the transport accepts the message and the save raises,
  here because the row of the profile is gone: the call returns false and the table is
  unchanged, yet the object's \<open>last_email_sent\<close> has changed from \<^verbatim>\<open>None\<close> to the current
  time.
\<close>

theorem last_email_sent_set_on_failed_call:
  "\<not> fst (send_email test_env ''Hi'' (Some ''Body'') None None None state_no_row)
   \<and> last_email_sent (st_self state_no_row) = None
   \<and> last_email_sent
        (st_self (snd (send_email test_env ''Hi'' (Some ''Body'') None None None state_no_row)))
       = Some 105
   \<and> table (st_world (snd (send_email test_env ''Hi'' (Some ''Body'') None None None
                               state_no_row))) = []
   \<and> outbox (st_world (snd (send_email test_env ''Hi'' (Some ''Body'') None None None
                                state_no_row)))
       = [\<lparr>m_subject = ''Hi'', m_message = ''Body'', m_from_email = None,
           m_recipient_list = [''a@x.com''], m_html_message = None\<rparr>]"
  by (simp add: send_defs example_defs)

section \<open>Rendering a template\<close>

text \<open>
  C5, as amended: for every call that passes the eligibility gate and is given a non-empty
  template name and a dictionary, the renderer is invoked once, with the template name
  and the dictionary augmented with the patient and the profile; and when the renderer
  returns, one message is handed to the transport, for the preferred address, whose HTML
  body is the rendered text and, if no non-empty plain-text message was given, whose
  plain-text body is \<^verbatim>\<open>strip_tags\<close> of the rendered text.
\<close>

theorem template_rendering:
  assumes "email_notifications_enabled (st_self st)" "\<not> email_bounced (st_self st)"
    and "get_preferred_email (st_self st) = Some a" "a \<noteq> []"
    and "template_name = Some tn" "tn \<noteq> []" "st_ctx st = Some c"
    and "send_email E subject message html_message template_name from_email st = (b, st')"
  shows "rendered (st_world st') = rendered (st_world st)
           @ [(tn, c(''patient'' \<mapsto> V_patient (patient (st_self st)), ''email_profile'' \<mapsto> V_self))]
       \<and> (\<forall>h. render_to_string E tn
                 (c(''patient'' \<mapsto> V_patient (patient (st_self st)), ''email_profile'' \<mapsto> V_self))
                 (st_self st) = Inr h \<longrightarrow>
             (\<exists>m. outbox (st_world st') = outbox (st_world st) @ [m]
                \<and> m_html_message m = Some h \<and> m_recipient_list m = [a]
                \<and> m_subject m = subject \<and> m_from_email m = from_email
                \<and> (\<not> truthy message \<longrightarrow> m_message m = strip_tags E h)))"
proof -
  let ?c = "augment (st_self st) c"
  have aug: "c(''patient'' \<mapsto> V_patient (patient (st_self st)), ''email_profile'' \<mapsto> V_self) = ?c"
    by (simp add: augment_def)
  note run = render_stage_run [OF assms(5-7)]
  show ?thesis
  proof (cases rule: send_email_cases [where st = st and E = E and subject = subject
      and message = message and html_message = html_message
      and template_name = template_name and from_email = from_email])
    case skipped
    with assms(1-4) show ?thesis by (simp add: truthy_def)
  next
    case (render_raises a' e st1)
    with assms(8) run [OF render_raises(5)] show ?thesis by (auto simp: aug)
  next
    case (transport_raises a' message' html_message' e st1)
    with assms(3,8) run [OF transport_raises(5)] show ?thesis
      by (auto simp: mail_for_def aug)
  next
    case (refused a' message' html_message' st1)
    with assms(3,8) run [OF refused(5)] show ?thesis
      by (auto simp: mail_for_def aug)
  next
    case (save_raises a' message' html_message' n e st1)
    with assms(3,8) run [OF save_raises(5)] show ?thesis
      by (auto simp: mail_for_def aug)
  next
    case (sent a' message' html_message' n tbl st1)
    with assms(3,8) run [OF sent(5)] show ?thesis
      by (auto simp: mail_for_def aug)
  qed
qed

theorem template_rendering_witness:
  "email_notifications_enabled (st_self (state0\<lparr>st_ctx := Some Map.empty\<rparr>))
   \<and> \<not> email_bounced (st_self (state0\<lparr>st_ctx := Some Map.empty\<rparr>))
   \<and> get_preferred_email (st_self (state0\<lparr>st_ctx := Some Map.empty\<rparr>)) = Some ''a@x.com''
   \<and> rendered (st_world (snd (send_email test_env ''Hi'' None None (Some ''t.html'') None
                                  (state0\<lparr>st_ctx := Some Map.empty\<rparr>))))
       = [(''t.html'', [''patient'' \<mapsto> V_patient alice, ''email_profile'' \<mapsto> V_self])]
   \<and> outbox (st_world (snd (send_email test_env ''Hi'' None None (Some ''t.html'') None
                                (state0\<lparr>st_ctx := Some Map.empty\<rparr>))))
       = [\<lparr>m_subject = ''Hi'', m_message = ''Hi'', m_from_email = None,
           m_recipient_list = [''a@x.com''], m_html_message = Some ''<p>Hi</p>''\<rparr>]"
  using template_rendering [where E = test_env and subject = "''Hi''" and message = None
      and html_message = None and template_name = "Some ''t.html''" and from_email = None
      and st = "state0\<lparr>st_ctx := Some Map.empty\<rparr>" and a = "''a@x.com''" and tn = "''t.html''"
      and c = Map.empty
      and b = "fst (send_email test_env ''Hi'' None None (Some ''t.html'') None
                      (state0\<lparr>st_ctx := Some Map.empty\<rparr>))"
      and st' = "snd (send_email test_env ''Hi'' None None (Some ''t.html'') None
                      (state0\<lparr>st_ctx := Some Map.empty\<rparr>))"]
  by (simp add: send_defs example_defs)

text \<open>
  The claim as stated fails for a call the gate turns away: with notifications disabled,
  a template name and a dictionary, nothing is rendered and nothing reaches the
  transport.
\<close>

theorem no_rendering_when_notifications_disabled:
  "\<not> fst (send_email test_env ''Hi'' None None (Some ''t.html'') None
            (state0\<lparr>st_self := alice_profile\<lparr>email_notifications_enabled := False\<rparr>,
                    st_ctx := Some Map.empty\<rparr>))
   \<and> rendered (st_world (snd (send_email test_env ''Hi'' None None (Some ''t.html'') None
            (state0\<lparr>st_self := alice_profile\<lparr>email_notifications_enabled := False\<rparr>,
                    st_ctx := Some Map.empty\<rparr>)))) = []
   \<and> outbox (st_world (snd (send_email test_env ''Hi'' None None (Some ''t.html'') None
            (state0\<lparr>st_self := alice_profile\<lparr>email_notifications_enabled := False\<rparr>,
                    st_ctx := Some Map.empty\<rparr>)))) = []"
  by (simp add: send_defs example_defs)

section \<open>The caller's dictionary\<close>

text \<open>
  C10, as amended: for every call that passes the eligibility gate and is given a
  non-empty template name and a dictionary, the caller's dictionary after the call is
  the one passed with the keys "patient" and "email_profile" bound to the patient and
  to the profile object, whatever they were bound to before and whatever the outcome of
  rendering and sending.
\<close>

theorem caller_dict_mutated:
  assumes "email_notifications_enabled (st_self st)" "\<not> email_bounced (st_self st)"
    and "get_preferred_email (st_self st) = Some a" "a \<noteq> []"
    and "template_name = Some tn" "tn \<noteq> []" "st_ctx st = Some c"
  shows "st_ctx (snd (send_email E subject message html_message template_name from_email st))
         = Some (c(''patient'' \<mapsto> V_patient (patient (st_self st)), ''email_profile'' \<mapsto> V_self))"
proof -
  have aug: "c(''patient'' \<mapsto> V_patient (patient (st_self st)), ''email_profile'' \<mapsto> V_self)
             = augment (st_self st) c"
    by (simp add: augment_def)
  note run = render_stage_run [OF assms(5-7)]
  show ?thesis
  proof (cases rule: send_email_cases [where st = st and E = E and subject = subject
      and message = message and html_message = html_message
      and template_name = template_name and from_email = from_email])
    case skipped
    with assms(1-4) show ?thesis by (simp add: truthy_def)
  next
    case (render_raises a' e st1)
    with run [OF render_raises(5)] show ?thesis by (simp add: aug)
  next
    case (transport_raises a' message' html_message' e st1)
    with run [OF transport_raises(5)] show ?thesis by (simp add: aug)
  next
    case (refused a' message' html_message' st1)
    with run [OF refused(5)] show ?thesis by (simp add: aug)
  next
    case (save_raises a' message' html_message' n e st1)
    with run [OF save_raises(5)] show ?thesis by (simp add: aug)
  next
    case (sent a' message' html_message' n tbl st1)
    with run [OF sent(5)] show ?thesis by (simp add: aug)
  qed
qed

theorem caller_dict_mutated_witness:
  "email_notifications_enabled (st_self (state0\<lparr>st_ctx := Some [''patient'' \<mapsto> V_str ''x'']\<rparr>))
   \<and> \<not> email_bounced (st_self (state0\<lparr>st_ctx := Some [''patient'' \<mapsto> V_str ''x'']\<rparr>))
   \<and> get_preferred_email (st_self (state0\<lparr>st_ctx := Some [''patient'' \<mapsto> V_str ''x'']\<rparr>))
       = Some ''a@x.com''
   \<and> st_ctx (snd (send_email test_env ''Hi'' None None (Some ''t.html'') None
                     (state0\<lparr>st_ctx := Some [''patient'' \<mapsto> V_str ''x'']\<rparr>)))
       = Some [''patient'' \<mapsto> V_patient alice, ''email_profile'' \<mapsto> V_self]"
  using caller_dict_mutated [where E = test_env and subject = "''Hi''" and message = None
      and html_message = None and template_name = "Some ''t.html''" and from_email = None
      and st = "state0\<lparr>st_ctx := Some [''patient'' \<mapsto> V_str ''x'']\<rparr>"
      and a = "''a@x.com''" and tn = "''t.html''" and c = "[''patient'' \<mapsto> V_str ''x'']"]
  by (simp add: get_preferred_email_def truthy_def example_defs)

text \<open>
  The claim as stated fails for a call the gate turns away: for a bounced profile the
  dictionary comes back as it was passed, with neither key in it.
\<close>

theorem caller_dict_untouched_when_bounced:
  "the (st_ctx (snd (send_email test_env ''Hi'' None None (Some ''t.html'') None
          (state0\<lparr>st_self := alice_profile\<lparr>email_bounced := True\<rparr>,
                  st_ctx := Some Map.empty\<rparr>)))) ''patient'' = None
   \<and> the (st_ctx (snd (send_email test_env ''Hi'' None None (Some ''t.html'') None
          (state0\<lparr>st_self := alice_profile\<lparr>email_bounced := True\<rparr>,
                  st_ctx := Some Map.empty\<rparr>)))) ''email_profile'' = None"
  by (simp add: send_defs example_defs)

section \<open>What a true and a false return mean\<close>



section \<open>Faults inside the send path\<close>



section \<open>Unknown quick actions\<close>

text \<open>
  C7, as amended: for every request of a user who holds the permission to send patient
  emails, for a patient that exists in that user's organization, whose action is not
  "send_welcome", "send_appointment_reminder" or "verify_email" (or is missing), the
  endpoint answers with the JSON pair success = false, message = "Unknown action", and
  leaves the world as it was: nothing is sent and no profile is fetched or created.
\<close>

theorem unknown_quick_action:
  assumes "has_perm (req_user rq) ''patient_email_plugin.can_send_patient_emails''"
    and "get_object_or_404 patient_id (user_organization (req_user rq)) (patients wd) = Inr p"
    and "post rq ''action'' \<noteq> Some ''send_welcome''"
    and "post rq ''action'' \<noteq> Some ''send_appointment_reminder''"
    and "post rq ''action'' \<noteq> Some ''verify_email''"
  shows "ajax_patient_email_quick_actions E rq patient_id wd =
           (Inr [(''success'', J_bool False), (''message'', J_str ''Unknown action'')], wd)"
  using assms by (simp add: ajax_patient_email_quick_actions_def action_response_def)

theorem unknown_quick_action_witness:
  "has_perm (req_user unknown_request) ''patient_email_plugin.can_send_patient_emails''
   \<and> get_object_or_404 7 (user_organization (req_user unknown_request)) (patients world0)
       = Inr alice
   \<and> post unknown_request ''action'' = Some ''unknown_action''
   \<and> ajax_patient_email_quick_actions test_env unknown_request 7 world0
       = (Inr [(''success'', J_bool False), (''message'', J_str ''Unknown action'')], world0)"
  using unknown_quick_action [of unknown_request 7 world0 alice test_env]
  by (simp add: get_object_or_404_def example_defs)

text \<open>
  The claim as stated fails for a request that names no patient of the user's
  organization: the same user and the same unknown action, for patient 99, end in the
  not-found exception of the lookup and no JSON answer.
\<close>

theorem quick_action_for_missing_patient:
  "has_perm (req_user unknown_request) ''patient_email_plugin.can_send_patient_emails''
   \<and> post unknown_request ''action'' = Some ''unknown_action''
   \<and> ajax_patient_email_quick_actions test_env unknown_request 99 world0
       = (Inl (Exn ''Http404'' ''No Patient matches the given query.''), world0)"
  by (simp add: ajax_patient_email_quick_actions_def get_object_or_404_def example_defs)

section \<open>Template names\<close>





end
